theory Spec2Isabelle
  imports Main "HOL-Library.Sublist"
begin

section \<open>Go values used by the S3 backend\<close>

text \<open>
  The backend of \<^verbatim>\<open>storage/backend/s3/s3.go\<close> is a thin layer over the AWS SDK: it
  builds request values, calls the client, and classifies what comes back. The model
  keeps exactly that. The values the code builds are records; for \<^verbatim>\<open>Put\<close> and
  \<^verbatim>\<open>Exists\<close> every call to the client is appended to a trace; what the remote store
  answers is a parameter (\<open>s3_service\<close>, \<open>get_service\<close>), since the store is not part
  of this program. \<^verbatim>\<open>Get\<close> is the one function that is not sequential: what its
  \<^verbatim>\<open>select\<close> does with the goroutine and the context is a function of a schedule, a
  parameter as well.
\<close>

subsection \<open>Errors and panics\<close>

text \<open>
  A Go \<^verbatim>\<open>error\<close> is an interface value. Three dynamic types matter here: the SDK's
  \<^verbatim>\<open>awserr.Error\<close> (it has a \<^verbatim>\<open>Code()\<close>), any other error (a context error, an
  \<^verbatim>\<open>errors.New\<close> value, ...), and the wrapper that \<^verbatim>\<open>fmt.Errorf("... %w", err)\<close>
  builds, which is not an \<^verbatim>\<open>awserr.Error\<close> itself.
\<close>

datatype awserr_Error = awserr_Error (Code: string) (Message: string)

datatype go_error =
    AwsErr awserr_Error
  | PlainErr string
  | Errorf string go_error

text \<open>\<^verbatim>\<open>errors.Unwrap\<close>: the cause that \<^verbatim>\<open>%w\<close> recorded.\<close>

fun Unwrap :: "go_error \<Rightarrow> go_error option" where
  "Unwrap (Errorf msg err) = Some err"
| "Unwrap (AwsErr a) = None"
| "Unwrap (PlainErr m) = None"

text \<open>A call either returns or panics; a panic unwinds through the caller.\<close>

datatype 'a outcome = Panic string | Return 'a

text \<open>
  The comma-ok type assertion \<^verbatim>\<open>awsErr, ok := err.(awserr.Error)\<close>: when it fails,
  \<open>ok\<close> is false and \<open>awsErr\<close> is the nil interface.
\<close>

definition assert_awserr :: "go_error \<Rightarrow> awserr_Error option \<times> bool" where
  "assert_awserr err = (case err of AwsErr a \<Rightarrow> (Some a, True) | _ \<Rightarrow> (None, False))"

text \<open>A method call on an interface value: on the nil interface it panics.\<close>

definition call_Code :: "awserr_Error option \<Rightarrow> string outcome" where
  "call_Code awsErr =
     (case awsErr of
        None \<Rightarrow> Panic ''runtime error: invalid memory address or nil pointer dereference''
      | Some a \<Rightarrow> Return (Code a))"

text \<open>
  Go's \<^verbatim>\<open>&&\<close> and \<^verbatim>\<open>||\<close> evaluate the left operand first and the right one only
  when the left does not decide; \<^verbatim>\<open>==\<close> needs its operand's value.
\<close>

definition go_and :: "bool outcome \<Rightarrow> bool outcome \<Rightarrow> bool outcome" where
  "go_and x y = (case x of Panic m \<Rightarrow> Panic m | Return False \<Rightarrow> Return False | Return True \<Rightarrow> y)"

definition go_or :: "bool outcome \<Rightarrow> bool outcome \<Rightarrow> bool outcome" where
  "go_or x y = (case x of Panic m \<Rightarrow> Panic m | Return True \<Rightarrow> Return True | Return False \<Rightarrow> y)"

definition go_eq :: "string outcome \<Rightarrow> string \<Rightarrow> bool outcome" where
  "go_eq x s = (case x of Panic m \<Rightarrow> Panic m | Return v \<Rightarrow> Return (v = s))"

subsection \<open>Time\<close>

text \<open>
  A \<^verbatim>\<open>time.Time\<close> is an instant, counted here in nanoseconds from the instant of the
  zero value \<^verbatim>\<open>time.Time{}\<close>; a \<^verbatim>\<open>time.Duration\<close> is a nanosecond count.
\<close>

datatype Time = Time (nanos: int)

type_synonym Duration = int

definition zero_Time :: Time where
  "zero_Time = Time 0"

definition Time_Add :: "Time \<Rightarrow> Duration \<Rightarrow> Time" where
  "Time_Add t d = Time (nanos t + d)"

subsection \<open>Logging\<close>

text \<open>
  A \<^verbatim>\<open>log.Logger\<close> is a handle; what is logged through it is kept in a list of
  entries, each with the level that \<^verbatim>\<open>level.Warn\<close> or \<^verbatim>\<open>level.Debug\<close> attached.
\<close>

datatype Logger = Logger nat

datatype log_level = LevelDebug | LevelWarn

subsection \<open>Configuration\<close>

text \<open>
  Modelled from the spec: the \<^verbatim>\<open>Config\<close> struct of the package, declared in a file that
  is not among the sources. The fields are the ones \<^verbatim>\<open>New\<close> reads; the spec's
  configuration surface lists the same ones (endpoint, region, path-style flag, access
  key and secret, bucket, access-control setting, encryption setting, TTL duration string).
\<close>

record Config =
  Region :: string
  Endpoint :: string
  PathStyle :: bool
  Key :: string
  Secret :: string
  Bucket :: string
  ACL :: string
  Encryption :: string
  TTL :: string

datatype log_value = Str string | GoSyntax Config

datatype log_entry = LogEntry Logger log_level "(string \<times> log_value) list"

subsection \<open>SDK values\<close>

datatype Credentials = AnonymousCredentials | StaticCredentials string string string

datatype LogLevelType = LogDebugWithHTTPBody

record aws_Config =
  aws_Region :: string
  aws_Endpoint :: string
  DisableSSL :: bool
  S3ForcePathStyle :: bool
  aws_Credentials :: Credentials
  LogLevel :: "LogLevelType option"

datatype Session = Session

text \<open>\<^verbatim>\<open>s3.New(session, conf)\<close>: the client handle carries the session and the configuration.\<close>

record S3 =
  S3_Session :: Session
  S3_Config :: aws_Config

definition s3_New :: "Session \<Rightarrow> aws_Config \<Rightarrow> S3" where
  "s3_New sess conf = \<lparr>S3_Session = sess, S3_Config = conf\<rparr>"

text \<open>
  The caller's \<^verbatim>\<open>context.Context\<close>, by its state: not done, cancelled, or past its
  deadline.
\<close>

datatype Context = Background | Canceled | DeadlineExceeded

record UploadInput =
  up_Bucket :: string
  up_Key :: string
  up_ACL :: string
  up_Body :: string
  ServerSideEncryption :: "string option"

record LifecycleRule =
  Filter_Prefix :: string
  Expiration_Date :: Time

record BucketLifecycleConfiguration =
  Rules :: "LifecycleRule list"

record PutBucketLifecycleConfigurationInput =
  lc_Bucket :: string
  LifecycleConfiguration :: BucketLifecycleConfiguration

record HeadObjectInput =
  head_Bucket :: string
  head_Key :: string

text \<open>\<^verbatim>\<open>ETag *string\<close>: a pointer, nil when the response carries no ETag.\<close>

record HeadObjectOutput =
  ETag :: "string option"

text \<open>\<^verbatim>\<open>s3.ErrCodeNoSuchKey\<close>, a constant of the SDK.\<close>

definition ErrCodeNoSuchKey :: string where
  "ErrCodeNoSuchKey = ''NoSuchKey''"

subsection \<open>The client's calls and the remote store\<close>

text \<open>
  Every request the backend sends is recorded, in order. The store's answer to a request
  may depend on everything sent so far, on the client and on the request.
\<close>

datatype s3_call =
    CallUpload S3 Context UploadInput
  | CallPutBucketLifecycleConfiguration S3 PutBucketLifecycleConfigurationInput
  | CallHeadObject S3 Context HeadObjectInput

record s3_service =
  UploadWithContext :: "s3_call list \<Rightarrow> S3 \<Rightarrow> Context \<Rightarrow> UploadInput \<Rightarrow> go_error option"
  PutBucketLifecycleConfiguration ::
    "s3_call list \<Rightarrow> S3 \<Rightarrow> PutBucketLifecycleConfigurationInput \<Rightarrow> go_error option"
  HeadObjectWithContext ::
    "s3_call list \<Rightarrow> S3 \<Rightarrow> Context \<Rightarrow> HeadObjectInput \<Rightarrow> go_error + HeadObjectOutput"

section \<open>The backend\<close>

record Backend =
  logger :: Logger
  bucket :: string
  acl :: string
  encryption :: string
  client :: S3
  expiresAt :: Time

subsection \<open>New\<close>

text \<open>
  What \<^verbatim>\<open>New\<close> takes from the Go runtime and the SDK: \<^verbatim>\<open>time.ParseDuration\<close>, the
  reading of \<^verbatim>\<open>time.Now()\<close>, and the result of
  \<^verbatim>\<open>session.NewSessionWithOptions(session.Options{})\<close>, which depends on the process
  environment. \<^verbatim>\<open>session.Must\<close> panics when that result is an error.

  \<open>New\<close> logs through \<open>l\<close> before it looks at the TTL, so the entries are there
  also when it fails. The local \<open>ttl\<close> is the TTL block of the source: the early
  return with the parse error, or the value of \<^verbatim>\<open>expiresAt\<close> after the block (still the
  zero value when the TTL string is empty; the clock is read only when the string parses).
\<close>

record runtime =
  ParseDuration :: "string \<Rightarrow> go_error + Duration"
  Now :: Time
  NewSessionWithOptions :: "go_error + Session"

definition session_Must :: "go_error + Session \<Rightarrow> Session outcome" where
  "session_Must r = (case r of Inl err \<Rightarrow> Panic ''session.Must'' | Inr sess \<Rightarrow> Return sess)"

definition New ::
  "Logger \<Rightarrow> Config \<Rightarrow> bool \<Rightarrow> runtime \<Rightarrow> log_entry list
     \<Rightarrow> (go_error + Backend) outcome \<times> log_entry list" where
  "New l c debug rt lg =
     (let conf0 = \<lparr>aws_Region = Region c,
                   aws_Endpoint = Endpoint c,
                   DisableSSL = (\<not> prefix ''https://'' (Endpoint c)),
                   S3ForcePathStyle = PathStyle c,
                   aws_Credentials = AnonymousCredentials,
                   LogLevel = None\<rparr>;
          (conf1, lg1) =
            (if Key c \<noteq> '''' \<and> Secret c \<noteq> ''''
             then (conf0\<lparr>aws_Credentials := StaticCredentials (Key c) (Secret c) ''''\<rparr>, lg)
             else (conf0, lg @ [LogEntry l LevelWarn
                     [(''msg'', Str ''aws key and/or Secret not provided (falling back to anonymous credentials)'')]]));
          lg2 = lg1 @ [LogEntry l LevelDebug [(''msg'', Str ''s3 backend''), (''config'', GoSyntax c)]];
          conf2 = (if debug then conf1\<lparr>LogLevel := Some LogDebugWithHTTPBody\<rparr> else conf1);
          ttl = (if TTL c \<noteq> ''''
                 then (case ParseDuration rt (TTL c) of
                         Inl err \<Rightarrow> Inl err
                       | Inr duration \<Rightarrow> Inr (Time_Add (Now rt) duration))
                 else Inr zero_Time)
      in case ttl of
           Inl err \<Rightarrow> (Return (Inl err), lg2)
         | Inr expires \<Rightarrow>
             (case session_Must (NewSessionWithOptions rt) of
                Panic m \<Rightarrow> (Panic m, lg2)
              | Return sess \<Rightarrow>
                  (Return (Inr \<lparr>logger = l,
                                bucket = Bucket c,
                                acl = ACL c,
                                encryption = Encryption c,
                                client = s3_New sess conf2,
                                expiresAt = expires\<rparr>), lg2)))"

subsection \<open>Put\<close>

text \<open>
  The request values that \<^verbatim>\<open>Put\<close> builds before each of its two calls. The upload
  through \<^verbatim>\<open>s3manager\<close> counts as one request. The lifecycle request takes no context.
\<close>

definition Put_UploadInput :: "Backend \<Rightarrow> string \<Rightarrow> string \<Rightarrow> UploadInput" where
  "Put_UploadInput b p r =
     (let inp = \<lparr>up_Bucket = bucket b, up_Key = p, up_ACL = acl b, up_Body = r,
                 ServerSideEncryption = None\<rparr>
      in if encryption b \<noteq> '''' then inp\<lparr>ServerSideEncryption := Some (encryption b)\<rparr> else inp)"

definition Put_LifecycleInput :: "Backend \<Rightarrow> string \<Rightarrow> PutBucketLifecycleConfigurationInput" where
  "Put_LifecycleInput b p =
     (let lifecycleConfiguration =
            \<lparr>Rules = [\<lparr>Filter_Prefix = p, Expiration_Date = expiresAt b\<rparr>]\<rparr>
      in \<lparr>lc_Bucket = bucket b, LifecycleConfiguration = lifecycleConfiguration\<rparr>)"

definition Put ::
  "Backend \<Rightarrow> s3_service \<Rightarrow> Context \<Rightarrow> string \<Rightarrow> string \<Rightarrow> s3_call list
     \<Rightarrow> go_error option \<times> s3_call list" where
  "Put b svc ctx p r calls =
     (let inp = Put_UploadInput b p r;
          calls1 = calls @ [CallUpload (client b) ctx inp]
      in case UploadWithContext svc calls (client b) ctx inp of
           Some err \<Rightarrow> (Some (Errorf ''put the object, '' err), calls1)
         | None \<Rightarrow>
             (let input = Put_LifecycleInput b p;
                  calls2 = calls1 @ [CallPutBucketLifecycleConfiguration (client b) input]
              in case PutBucketLifecycleConfiguration svc calls1 (client b) input of
                   Some err \<Rightarrow> (Some (Errorf ''put the object, '' err), calls2)
                 | None \<Rightarrow> (None, calls2)))"

subsection \<open>Exists\<close>

text \<open>
  The probe is one \<^verbatim>\<open>HeadObjectWithContext\<close> call. On an error the source evaluates
  \<^verbatim>\<open>ok && awsErr.Code() == s3.ErrCodeNoSuchKey || awsErr.Code() == "NotFound"\<close>, which
  Go parses as \<^verbatim>\<open>(ok && ...) || ...\<close>; on success it dereferences \<^verbatim>\<open>out.ETag\<close>.
\<close>

definition Exists ::
  "Backend \<Rightarrow> s3_service \<Rightarrow> Context \<Rightarrow> string \<Rightarrow> s3_call list
     \<Rightarrow> (bool \<times> go_error option) outcome \<times> s3_call list" where
  "Exists b svc ctx p calls =
     (let inp = \<lparr>head_Bucket = bucket b, head_Key = p\<rparr>;
          calls1 = calls @ [CallHeadObject (client b) ctx inp]
      in case HeadObjectWithContext svc calls (client b) ctx inp of
           Inl err \<Rightarrow>
             (let (awsErr, ok) = assert_awserr err
              in case go_or (go_and (Return ok) (go_eq (call_Code awsErr) ErrCodeNoSuchKey))
                            (go_eq (call_Code awsErr) ''NotFound'') of
                   Panic m \<Rightarrow> (Panic m, calls1)
                 | Return True \<Rightarrow> (Return (False, None), calls1)
                 | Return False \<Rightarrow>
                     (Return (False, Some (Errorf ''head the object, '' err)), calls1))
         | Inr out \<Rightarrow>
             (case ETag out of
                None \<Rightarrow> (Panic ''runtime error: invalid memory address or nil pointer dereference'', calls1)
              | Some etag \<Rightarrow> (Return (etag \<noteq> '''', None), calls1)))"

subsection \<open>Get\<close>

text \<open>
  \<^verbatim>\<open>Get\<close> starts a goroutine and then waits in a \<^verbatim>\<open>select\<close>. The goroutine fetches
  the object and copies the response body into the caller's writer; on a failure it sends
  the wrapped error on the unbuffered channel \<^verbatim>\<open>errCh\<close>, and in every case the deferred
  \<^verbatim>\<open>close(errCh)\<close> runs when it ends. So on \<^verbatim>\<open>errCh\<close> the goroutine either offers one
  error or, after a completed transfer, closes the channel, and a receive from the closed
  channel yields the nil error. What the store returns for the fetch and what copying
  into the writer returns are parameters.
\<close>

record GetObjectInput =
  get_Bucket :: string
  get_Key :: string

datatype Writer = Writer nat

record get_service =
  GetObjectWithContext :: "S3 \<Rightarrow> Context \<Rightarrow> GetObjectInput \<Rightarrow> go_error + string"
  io_Copy :: "Writer \<Rightarrow> string \<Rightarrow> go_error option"

datatype chan_event = Send go_error | Close

fun recv :: "chan_event \<Rightarrow> go_error option" where
  "recv (Send err) = Some err"
| "recv Close = None"

definition Get_goroutine ::
  "Backend \<Rightarrow> get_service \<Rightarrow> Context \<Rightarrow> string \<Rightarrow> Writer \<Rightarrow> chan_event" where
  "Get_goroutine b svc ctx p w =
     (let inp = \<lparr>get_Bucket = bucket b, get_Key = p\<rparr>
      in case GetObjectWithContext svc (client b) ctx inp of
           Inl err \<Rightarrow> Send (Errorf ''get the object, '' err)
         | Inr body \<Rightarrow>
             (case io_Copy svc w body of
                Some err \<Rightarrow> Send (Errorf ''copy the object, '' err)
              | None \<Rightarrow> Close))"

text \<open>
  For \<^verbatim>\<open>Get\<close> the context value says how the caller's context ends: \<open>Background\<close> is
  never done (its \<^verbatim>\<open>Done()\<close> channel is nil, a receive from it never proceeds), the other
  two are done at some instant and \<^verbatim>\<open>ctx.Err()\<close> is then the matching error.
\<close>

fun ctx_Err :: "Context \<Rightarrow> go_error option" where
  "ctx_Err Background = None"
| "ctx_Err Canceled = Some (PlainErr ''context canceled'')"
| "ctx_Err DeadlineExceeded = Some (PlainErr ''context deadline exceeded'')"

text \<open>
  The two cases of the \<^verbatim>\<open>select\<close>, and what the Go runtime contributes to one call:
  the instant at which the goroutine reaches its send or its close (none when the
  transfer never ends), the instant at which the context is done (none when never), the
  instant at which the calling goroutine evaluates the \<^verbatim>\<open>select\<close>, and the runtime's
  pseudo-random pick for the case that both communications can proceed. Instants are
  counted on a logical clock.
\<close>

datatype select_case = RecvErrCh | RecvDone

record schedule =
  errCh_at :: "nat option"
  done_at :: "nat option"
  select_at :: nat
  pick :: select_case

definition Done_at :: "Context \<Rightarrow> schedule \<Rightarrow> nat option" where
  "Done_at ctx sched = (case ctx of Background \<Rightarrow> None | _ \<Rightarrow> done_at sched)"

text \<open>
  A \<^verbatim>\<open>select\<close> without default, as the language defines it: when one or more of its
  communications can proceed at the moment it is evaluated, one of them is chosen
  pseudo-randomly; otherwise it blocks until one can proceed, and that one is taken
  (the pick decides again when both become ready at the same instant). When neither ever
  can, it blocks for ever: the result is \<open>None\<close>.
\<close>

definition select_go ::
  "nat option \<Rightarrow> nat option \<Rightarrow> nat \<Rightarrow> select_case \<Rightarrow> select_case option" where
  "select_go errCh_ready done_ready at_time choice =
     (case (errCh_ready, done_ready) of
        (None, None) \<Rightarrow> None
      | (Some t, None) \<Rightarrow> Some RecvErrCh
      | (None, Some d) \<Rightarrow> Some RecvDone
      | (Some t, Some d) \<Rightarrow>
          (if t \<le> at_time \<and> d \<le> at_time then Some choice
           else if t < d then Some RecvErrCh
           else if d < t then Some RecvDone
           else Some choice))"

text \<open>\<open>Get\<close> returns \<open>None\<close> when it never returns, and \<open>Some\<close> of its error otherwise.\<close>

definition Get ::
  "Backend \<Rightarrow> get_service \<Rightarrow> schedule \<Rightarrow> Context \<Rightarrow> string \<Rightarrow> Writer
     \<Rightarrow> go_error option option" where
  "Get b svc sched ctx p w =
     (case select_go (errCh_at sched) (Done_at ctx sched) (select_at sched) (pick sched) of
        None \<Rightarrow> None
      | Some RecvErrCh \<Rightarrow> Some (recv (Get_goroutine b svc ctx p w))
      | Some RecvDone \<Rightarrow> Some (ctx_Err ctx))"

section \<open>Concrete inputs\<close>

text \<open>
  Configurations, runtimes and stores on which the theorems below are evaluated. The
  sample \<open>ParseDuration\<close> accepts the one duration string the examples use.
\<close>

definition parse_sample :: "string \<Rightarrow> go_error + Duration" where
  "parse_sample s =
     (if s = ''24h'' then Inr 86400000000000
      else Inl (PlainErr ''time: invalid duration''))"

definition rt_ok :: runtime where
  "rt_ok = \<lparr>ParseDuration = parse_sample, Now = Time 1000, NewSessionWithOptions = Inr Session\<rparr>"

definition cfg_ttl :: Config where
  "cfg_ttl =
     \<lparr>Region = ''eu-west-1'', Endpoint = ''https://s3.example.com'', PathStyle = False,
      Key = ''AKIAEXAMPLE'', Secret = ''s3cr3t'', Bucket = ''cache'', ACL = ''private'',
      Encryption = '''', TTL = ''24h''\<rparr>"

definition cfg_plain :: Config where
  "cfg_plain =
     \<lparr>Region = ''us-east-1'', Endpoint = ''minio:9000'', PathStyle = True,
      Key = '''', Secret = '''', Bucket = ''cache'', ACL = ''private'',
      Encryption = ''AES256'', TTL = ''''\<rparr>"

definition cfg_bad_ttl :: Config where
  "cfg_bad_ttl =
     \<lparr>Region = ''us-east-1'', Endpoint = ''minio:9000'', PathStyle = True,
      Key = '''', Secret = '''', Bucket = ''cache'', ACL = ''private'',
      Encryption = ''AES256'', TTL = ''soon''\<rparr>"

text \<open>The backends that \<open>New\<close> returns for \<open>cfg_ttl\<close> and \<open>cfg_plain\<close> under \<open>rt_ok\<close>.\<close>

definition backend_ttl :: Backend where
  "backend_ttl =
     \<lparr>logger = Logger 0, bucket = ''cache'', acl = ''private'', encryption = '''',
      client =
        \<lparr>S3_Session = Session,
         S3_Config =
           \<lparr>aws_Region = ''eu-west-1'', aws_Endpoint = ''https://s3.example.com'',
            DisableSSL = False, S3ForcePathStyle = False,
            aws_Credentials = StaticCredentials ''AKIAEXAMPLE'' ''s3cr3t'' '''',
            LogLevel = None\<rparr>\<rparr>,
      expiresAt = Time 86400000001000\<rparr>"

definition backend_plain :: Backend where
  "backend_plain =
     \<lparr>logger = Logger 0, bucket = ''cache'', acl = ''private'', encryption = ''AES256'',
      client =
        \<lparr>S3_Session = Session,
         S3_Config =
           \<lparr>aws_Region = ''us-east-1'', aws_Endpoint = ''minio:9000'',
            DisableSSL = True, S3ForcePathStyle = True,
            aws_Credentials = AnonymousCredentials, LogLevel = None\<rparr>\<rparr>,
      expiresAt = Time 0\<rparr>"

text \<open>A store that gives the same answer to every request of a kind.\<close>

definition constant_service ::
  "go_error option \<Rightarrow> go_error option \<Rightarrow> go_error + HeadObjectOutput \<Rightarrow> s3_service" where
  "constant_service u lc h =
     \<lparr>UploadWithContext = (\<lambda>calls cl ctx inp. u),
      PutBucketLifecycleConfiguration = (\<lambda>calls cl inp. lc),
      HeadObjectWithContext = (\<lambda>calls cl ctx inp. h)\<rparr>"

definition lifecycle_err :: go_error where
  "lifecycle_err = AwsErr (awserr_Error ''AccessDenied'' ''Access Denied'')"

text \<open>
  For \<open>Get\<close>: a store whose fetch fails because the request's context is cancelled, a
  store and a writer with which the transfer completes, and three schedules.
\<close>

definition get_canceled :: get_service where
  "get_canceled =
     \<lparr>GetObjectWithContext =
        (\<lambda>cl ctx inp. Inl (AwsErr (awserr_Error ''RequestCanceled'' ''request context canceled''))),
      io_Copy = (\<lambda>w body. None)\<rparr>"

definition get_ok :: get_service where
  "get_ok = \<lparr>GetObjectWithContext = (\<lambda>cl ctx inp. Inr ''data''), io_Copy = (\<lambda>w body. None)\<rparr>"

definition sched_both_ready :: schedule where
  "sched_both_ready = \<lparr>errCh_at = Some 2, done_at = Some 1, select_at = 3, pick = RecvErrCh\<rparr>"

definition sched_done_first :: schedule where
  "sched_done_first = \<lparr>errCh_at = Some 7, done_at = Some 2, select_at = 0, pick = RecvErrCh\<rparr>"

definition sched_transfer_only :: schedule where
  "sched_transfer_only = \<lparr>errCh_at = Some 5, done_at = None, select_at = 0, pick = RecvDone\<rparr>"

section \<open>What New returns\<close>

lemma New_log:
  "snd (New l c debug rt lg) =
     lg @ (if Key c \<noteq> '''' \<and> Secret c \<noteq> '''' then []
           else [LogEntry l LevelWarn
                  [(''msg'', Str ''aws key and/or Secret not provided (falling back to anonymous credentials)'')]])
        @ [LogEntry l LevelDebug [(''msg'', Str ''s3 backend''), (''config'', GoSyntax c)]]"
  by (simp add: New_def Let_def session_Must_def split: sum.splits)

lemma New_Return_Inr:
  assumes "fst (New l c debug rt lg) = Return (Inr b)"
  shows "\<exists>sess. NewSessionWithOptions rt = Inr sess \<and>
     b = \<lparr>logger = l, bucket = Bucket c, acl = ACL c, encryption = Encryption c,
          client = s3_New sess
            \<lparr>aws_Region = Region c, aws_Endpoint = Endpoint c,
             DisableSSL = (\<not> prefix ''https://'' (Endpoint c)),
             S3ForcePathStyle = PathStyle c,
             aws_Credentials = (if Key c \<noteq> '''' \<and> Secret c \<noteq> ''''
                                then StaticCredentials (Key c) (Secret c) ''''
                                else AnonymousCredentials),
             LogLevel = (if debug then Some LogDebugWithHTTPBody else None)\<rparr>,
          expiresAt = (if TTL c \<noteq> ''''
                       then (case ParseDuration rt (TTL c) of
                               Inr d \<Rightarrow> Time_Add (Now rt) d | Inl e \<Rightarrow> zero_Time)
                       else zero_Time)\<rparr>"
  using assms
  by (auto simp add: New_def Let_def session_Must_def split: sum.splits if_splits)

lemma New_cfg_ttl: "fst (New (Logger 0) cfg_ttl False rt_ok []) = Return (Inr backend_ttl)"
  by (simp add: New_def Let_def cfg_ttl_def rt_ok_def parse_sample_def session_Must_def
      s3_New_def Time_Add_def backend_ttl_def)

lemma New_cfg_plain: "fst (New (Logger 0) cfg_plain False rt_ok []) = Return (Inr backend_plain)"
  by (simp add: New_def Let_def cfg_plain_def rt_ok_def session_Must_def
      s3_New_def zero_Time_def backend_plain_def)

section \<open>Put and the expiration date\<close>

lemma Put_trace:
  "snd (Put b svc ctx p r calls) =
     calls @ CallUpload (client b) ctx (Put_UploadInput b p r) #
       (if UploadWithContext svc calls (client b) ctx (Put_UploadInput b p r) = None
        then [CallPutBucketLifecycleConfiguration (client b) (Put_LifecycleInput b p)]
        else [])"
  by (simp add: Put_def Let_def split: option.splits)

lemma Put_UploadInput_backend_ttl:
  "Put_UploadInput backend_ttl ''artifact/1.tar'' ''data'' =
     \<lparr>up_Bucket = ''cache'', up_Key = ''artifact/1.tar'', up_ACL = ''private'',
      up_Body = ''data'', ServerSideEncryption = None\<rparr>"
  by (simp add: Put_UploadInput_def backend_ttl_def)

lemma Put_LifecycleInput_backend_ttl:
  "Put_LifecycleInput backend_ttl ''artifact/1.tar'' =
     \<lparr>lc_Bucket = ''cache'',
      LifecycleConfiguration =
        \<lparr>Rules = [\<lparr>Filter_Prefix = ''artifact/1.tar'',
                   Expiration_Date = Time 86400000001000\<rparr>]\<rparr>\<rparr>"
  by (simp add: Put_LifecycleInput_def backend_ttl_def)

text \<open>
  C4. A backend that \<open>New\<close> returns for a non-empty TTL string that parses to \<open>d\<close> has
  \<open>expiresAt\<close> equal to the reading of the clock at construction plus \<open>d\<close>. \<open>Put\<close>
  reads no clock and leaves the backend as it is, so whatever the store, the context, the
  key, the content and the requests sent before, the lifecycle rule that \<open>Put\<close> sends
  after a successful upload carries that same date.
\<close>

theorem expiresAt_fixed_at_construction:
  assumes "TTL c \<noteq> ''''"
      and "ParseDuration rt (TTL c) = Inr d"
      and "fst (New l c debug rt lg) = Return (Inr b)"
  shows "expiresAt b = Time_Add (Now rt) d \<and>
         snd (Put b svc ctx p r calls) =
           calls @ CallUpload (client b) ctx (Put_UploadInput b p r) #
             (if UploadWithContext svc calls (client b) ctx (Put_UploadInput b p r) = None
              then [CallPutBucketLifecycleConfiguration (client b)
                      \<lparr>lc_Bucket = Bucket c,
                       LifecycleConfiguration =
                         \<lparr>Rules = [\<lparr>Filter_Prefix = p,
                                    Expiration_Date = Time_Add (Now rt) d\<rparr>]\<rparr>\<rparr>]
              else [])"
proof -
  from New_Return_Inr [OF assms(3)] assms(1,2)
  have e: "expiresAt b = Time_Add (Now rt) d" and bk: "bucket b = Bucket c"
    by auto
  have "Put_LifecycleInput b p =
          \<lparr>lc_Bucket = Bucket c,
           LifecycleConfiguration =
             \<lparr>Rules = [\<lparr>Filter_Prefix = p, Expiration_Date = Time_Add (Now rt) d\<rparr>]\<rparr>\<rparr>"
    by (simp add: Put_LifecycleInput_def e bk)
  with e show ?thesis
    by (simp add: Put_trace)
qed

theorem expiresAt_fixed_at_construction_witness:
  "TTL cfg_ttl \<noteq> '''' \<and>
   ParseDuration rt_ok (TTL cfg_ttl) = Inr 86400000000000 \<and>
   fst (New (Logger 0) cfg_ttl False rt_ok []) = Return (Inr backend_ttl) \<and>
   expiresAt backend_ttl = Time 86400000001000 \<and>
   snd (Put backend_ttl (constant_service None None (Inr \<lparr>ETag = None\<rparr>)) Background
          ''artifact/1.tar'' ''data'' []) =
     [CallUpload (client backend_ttl) Background
        \<lparr>up_Bucket = ''cache'', up_Key = ''artifact/1.tar'', up_ACL = ''private'',
         up_Body = ''data'', ServerSideEncryption = None\<rparr>,
      CallPutBucketLifecycleConfiguration (client backend_ttl)
        \<lparr>lc_Bucket = ''cache'',
         LifecycleConfiguration =
           \<lparr>Rules = [\<lparr>Filter_Prefix = ''artifact/1.tar'',
                      Expiration_Date = Time 86400000001000\<rparr>]\<rparr>\<rparr>]"
proof -
  have h1: "TTL cfg_ttl \<noteq> ''''"
    by (simp add: cfg_ttl_def)
  have h2: "ParseDuration rt_ok (TTL cfg_ttl) = Inr 86400000000000"
    by (simp add: cfg_ttl_def rt_ok_def parse_sample_def)
  note h3 = New_cfg_ttl
  have now: "Time_Add (Now rt_ok) 86400000000000 = Time 86400000001000"
    by (simp add: Time_Add_def rt_ok_def)
  have bk: "Bucket cfg_ttl = ''cache''"
    by (simp add: cfg_ttl_def)
  from expiresAt_fixed_at_construction [OF h1 h2 h3,
      of "constant_service None None (Inr \<lparr>ETag = None\<rparr>)" Background
         "''artifact/1.tar''" "''data''" "[]"]
  show ?thesis
    using h1 h2 h3
    by (simp add: now bk Put_UploadInput_backend_ttl constant_service_def)
qed

section \<open>Put and the lifecycle request\<close>

text \<open>
  C1. The claim: on a backend constructed without a TTL, \<open>Put\<close> sends no lifecycle
  request after a successful upload and succeeds on the upload alone. The comment in
  \<^verbatim>\<open>Put\<close> announces that check (``Check whether TTL flag is supplied. If so, add a
  lifecycle configuration''), but no check follows it. Evaluated on the backend that
  \<open>New\<close> returns for a configuration with an empty TTL: the upload succeeds, \<open>Put\<close>
  still sends \<^verbatim>\<open>PutBucketLifecycleConfiguration\<close>, with the zero time as the date,
  and when the store refuses that request \<open>Put\<close> returns an error.
\<close>

theorem Put_without_TTL_registers_lifecycle:
  "fst (New (Logger 0) cfg_plain False rt_ok []) = Return (Inr backend_plain) \<and>
   expiresAt backend_plain = zero_Time \<and>
   Put backend_plain (constant_service None (Some lifecycle_err) (Inr \<lparr>ETag = None\<rparr>)) Background
      ''artifact/1.tar'' ''data'' [] =
     (Some (Errorf ''put the object, '' lifecycle_err),
      [CallUpload (client backend_plain) Background
         \<lparr>up_Bucket = ''cache'', up_Key = ''artifact/1.tar'', up_ACL = ''private'',
          up_Body = ''data'', ServerSideEncryption = Some ''AES256''\<rparr>,
       CallPutBucketLifecycleConfiguration (client backend_plain)
         \<lparr>lc_Bucket = ''cache'',
          LifecycleConfiguration =
            \<lparr>Rules = [\<lparr>Filter_Prefix = ''artifact/1.tar'',
                       Expiration_Date = zero_Time\<rparr>]\<rparr>\<rparr>])"
proof -
  have "expiresAt backend_plain = zero_Time"
    by (simp add: backend_plain_def zero_Time_def)
  moreover have "Put_UploadInput backend_plain ''artifact/1.tar'' ''data'' =
      \<lparr>up_Bucket = ''cache'', up_Key = ''artifact/1.tar'', up_ACL = ''private'',
       up_Body = ''data'', ServerSideEncryption = Some ''AES256''\<rparr>"
    by (simp add: Put_UploadInput_def backend_plain_def)
  moreover have "Put_LifecycleInput backend_plain ''artifact/1.tar'' =
      \<lparr>lc_Bucket = ''cache'',
       LifecycleConfiguration =
         \<lparr>Rules = [\<lparr>Filter_Prefix = ''artifact/1.tar'',
                    Expiration_Date = zero_Time\<rparr>]\<rparr>\<rparr>"
    by (simp add: Put_LifecycleInput_def backend_plain_def zero_Time_def)
  ultimately show ?thesis
    by (simp add: New_cfg_plain Put_def Let_def constant_service_def)
qed

text \<open>
  C7. When the upload succeeds and the lifecycle request fails with \<open>err\<close>, \<open>Put\<close>
  returns an error that wraps \<open>err\<close>, and the requests it has sent are the upload and
  the lifecycle request, nothing after them: no request removes the uploaded object.
\<close>

theorem Put_lifecycle_failure:
  assumes "UploadWithContext svc calls (client b) ctx (Put_UploadInput b p r) = None"
      and "PutBucketLifecycleConfiguration svc
             (calls @ [CallUpload (client b) ctx (Put_UploadInput b p r)])
             (client b) (Put_LifecycleInput b p) = Some err"
  shows "Put b svc ctx p r calls =
           (Some (Errorf ''put the object, '' err),
            calls @ [CallUpload (client b) ctx (Put_UploadInput b p r),
                     CallPutBucketLifecycleConfiguration (client b) (Put_LifecycleInput b p)]) \<and>
         Unwrap (Errorf ''put the object, '' err) = Some err"
  using assms by (simp add: Put_def Let_def)

theorem Put_lifecycle_failure_witness:
  "Put backend_ttl (constant_service None (Some lifecycle_err) (Inr \<lparr>ETag = None\<rparr>)) Background
      ''artifact/1.tar'' ''data'' [] =
     (Some (Errorf ''put the object, '' lifecycle_err),
      [CallUpload (client backend_ttl) Background
         \<lparr>up_Bucket = ''cache'', up_Key = ''artifact/1.tar'', up_ACL = ''private'',
          up_Body = ''data'', ServerSideEncryption = None\<rparr>,
       CallPutBucketLifecycleConfiguration (client backend_ttl)
         \<lparr>lc_Bucket = ''cache'',
          LifecycleConfiguration =
            \<lparr>Rules = [\<lparr>Filter_Prefix = ''artifact/1.tar'',
                       Expiration_Date = Time 86400000001000\<rparr>]\<rparr>\<rparr>]) \<and>
   Unwrap (Errorf ''put the object, '' lifecycle_err) = Some lifecycle_err"
proof -
  let ?svc = "constant_service None (Some lifecycle_err) (Inr \<lparr>ETag = None\<rparr>)"
  have h1: "UploadWithContext ?svc [] (client backend_ttl) Background
              (Put_UploadInput backend_ttl ''artifact/1.tar'' ''data'') = None"
    by (simp add: constant_service_def)
  have h2: "PutBucketLifecycleConfiguration ?svc
              ([] @ [CallUpload (client backend_ttl) Background
                      (Put_UploadInput backend_ttl ''artifact/1.tar'' ''data'')])
              (client backend_ttl) (Put_LifecycleInput backend_ttl ''artifact/1.tar'') =
            Some lifecycle_err"
    by (simp add: constant_service_def)
  from Put_lifecycle_failure [OF h1 h2] show ?thesis
    by (simp add: Put_UploadInput_backend_ttl Put_LifecycleInput_backend_ttl)
qed

section \<open>Exists and the outcomes of the probe\<close>

text \<open>
  How \<open>Exists\<close> classifies a failed probe. The condition
  \<^verbatim>\<open>ok && awsErr.Code() == s3.ErrCodeNoSuchKey || awsErr.Code() == "NotFound"\<close> is
  \<^verbatim>\<open>(ok && ...) || ...\<close>: on an \<^verbatim>\<open>awserr.Error\<close> it compares the code with both
  strings; on any other error \<open>ok\<close> is false, the right operand is evaluated, and
  \<^verbatim>\<open>Code()\<close> is called on the nil interface.
\<close>

lemma Exists_aws_error:
  assumes "HeadObjectWithContext svc calls (client b) ctx
             \<lparr>head_Bucket = bucket b, head_Key = p\<rparr> = Inl (AwsErr a)"
  shows "fst (Exists b svc ctx p calls) =
           Return (False,
             if Code a = ''NoSuchKey'' \<or> Code a = ''NotFound'' then None
             else Some (Errorf ''head the object, '' (AwsErr a)))"
  using assms
  by (simp add: Exists_def Let_def assert_awserr_def call_Code_def go_or_def go_and_def
      go_eq_def ErrCodeNoSuchKey_def)

lemma Exists_other_error:
  assumes "HeadObjectWithContext svc calls (client b) ctx
             \<lparr>head_Bucket = bucket b, head_Key = p\<rparr> = Inl err"
      and "\<forall>a. err \<noteq> AwsErr a"
  shows "fst (Exists b svc ctx p calls) =
           Panic ''runtime error: invalid memory address or nil pointer dereference''"
  using assms
  by (cases err)
     (simp_all add: Exists_def Let_def assert_awserr_def call_Code_def go_or_def go_and_def
      go_eq_def)

text \<open>
  C2. The claim: a probe failure that is neither ``no such key'' nor ``not found'' makes
  \<open>Exists\<close> return \<open>(false, e)\<close> with \<open>e\<close> wrapping the cause. Evaluated on a probe
  that fails with a network error that is not an \<^verbatim>\<open>awserr.Error\<close>: \<open>Exists\<close> panics
  and returns nothing.
\<close>

theorem Exists_network_error_panics:
  "Exists backend_plain
     (constant_service None None
        (Inl (PlainErr ''dial tcp 10.0.0.7:9000: connect: connection refused'')))
     Background ''artifact/1.tar'' [] =
   (Panic ''runtime error: invalid memory address or nil pointer dereference'',
    [CallHeadObject (client backend_plain) Background
       \<lparr>head_Bucket = ''cache'', head_Key = ''artifact/1.tar''\<rparr>])"
  by (simp add: Exists_def Let_def assert_awserr_def call_Code_def go_or_def go_and_def
      go_eq_def constant_service_def backend_plain_def)

text \<open>
  C3. The claim: \<open>Exists\<close> returns a pair for every outcome of the probe. It does not:
  whatever the backend, the context, the key and the requests sent before, \<open>Exists\<close>
  panics when the probe fails with an error that is not an \<^verbatim>\<open>awserr.Error\<close> (a plain
  error, a wrapped error), and when the probe succeeds with a response whose
  \<^verbatim>\<open>ETag\<close> is nil.
\<close>

theorem Exists_not_total:
  "fst (Exists b (svc\<lparr>HeadObjectWithContext := \<lambda>calls cl ctx inp. Inl (PlainErr m)\<rparr>) ctx p calls) =
     Panic ''runtime error: invalid memory address or nil pointer dereference'' \<and>
   fst (Exists b (svc\<lparr>HeadObjectWithContext := \<lambda>calls cl ctx inp. Inl (Errorf m err)\<rparr>) ctx p calls) =
     Panic ''runtime error: invalid memory address or nil pointer dereference'' \<and>
   fst (Exists b (svc\<lparr>HeadObjectWithContext := \<lambda>calls cl ctx inp. Inr \<lparr>ETag = None\<rparr>\<rparr>) ctx p calls) =
     Panic ''runtime error: invalid memory address or nil pointer dereference''"
  by (simp add: Exists_def Let_def assert_awserr_def call_Code_def go_or_def go_and_def
      go_eq_def)

text \<open>
  A successful probe. When the response carries an ETag string, \<open>Exists\<close> returns
  \<open>(false, nil)\<close> for the empty string and \<open>(true, nil)\<close> for any other.
\<close>

lemma Exists_ETag:
  assumes "HeadObjectWithContext svc calls (client b) ctx
             \<lparr>head_Bucket = bucket b, head_Key = p\<rparr> = Inr out"
      and "ETag out = Some etag"
  shows "fst (Exists b svc ctx p calls) =
           (if etag = '''' then Return (False, None) else Return (True, None))"
  using assms by (simp add: Exists_def Let_def)

lemma Exists_ETag_examples:
  "fst (Exists backend_plain (constant_service None None (Inr \<lparr>ETag = Some ''''\<rparr>)) Background
          ''artifact/missing'' []) = Return (False, None) \<and>
   fst (Exists backend_plain
          (constant_service None None (Inr \<lparr>ETag = Some ''9b2cf535f27731c974343645a3985328''\<rparr>))
          Background ''artifact/1.tar'' []) = Return (True, None)"
proof -
  have a: "fst (Exists backend_plain (constant_service None None (Inr \<lparr>ETag = Some ''''\<rparr>))
             Background ''artifact/missing'' []) = Return (False, None)"
    using Exists_ETag [of "constant_service None None (Inr \<lparr>ETag = Some ''''\<rparr>)" "[]"
        backend_plain Background "''artifact/missing''" "\<lparr>ETag = Some ''''\<rparr>" "''''"]
    by (simp add: constant_service_def)
  have b: "fst (Exists backend_plain
          (constant_service None None (Inr \<lparr>ETag = Some ''9b2cf535f27731c974343645a3985328''\<rparr>))
          Background ''artifact/1.tar'' []) = Return (True, None)"
    using Exists_ETag [of
        "constant_service None None (Inr \<lparr>ETag = Some ''9b2cf535f27731c974343645a3985328''\<rparr>)"
        "[]" backend_plain Background "''artifact/1.tar''"
        "\<lparr>ETag = Some ''9b2cf535f27731c974343645a3985328''\<rparr>"
        "''9b2cf535f27731c974343645a3985328''"]
    by (simp add: constant_service_def)
  from a b show ?thesis by simp
qed

text \<open>
  C5. The claim: a successful probe whose response comes without the integrity tag is
  classified as non-existence, \<open>(false, nil)\<close>. That is the case the comment before the
  last line of \<^verbatim>\<open>Exists\<close> names (``Minio can return success status for without ETag,
  detect that here''). Evaluated on such a response, where \<^verbatim>\<open>out.ETag\<close> is nil:
  \<open>Exists\<close> dereferences the nil pointer and panics.
\<close>

theorem Exists_missing_ETag_panics:
  "Exists backend_plain (constant_service None None (Inr \<lparr>ETag = None\<rparr>)) Background
     ''artifact/missing'' [] =
   (Panic ''runtime error: invalid memory address or nil pointer dereference'',
    [CallHeadObject (client backend_plain) Background
       \<lparr>head_Bucket = ''cache'', head_Key = ''artifact/missing''\<rparr>])"
  by (simp add: Exists_def Let_def constant_service_def backend_plain_def)

section \<open>New: TTL, credentials and TLS\<close>

text \<open>
  C8. A non-empty TTL string that fails to parse makes \<open>New\<close> return the parse error
  and no backend. With an empty TTL string \<open>New\<close> does not consult \<open>ParseDuration\<close>
  (replacing it changes nothing) and the TTL step sets nothing: \<open>New\<close> goes on to create
  the client and returns a backend whose \<open>expiresAt\<close> is the zero time. The one thing
  that can still stop it is the process environment, whatever the TTL: when the SDK
  session cannot be created, \<^verbatim>\<open>session.Must\<close> panics.
\<close>

theorem New_TTL:
  "(TTL c \<noteq> '''' \<and> ParseDuration rt (TTL c) = Inl err \<longrightarrow>
      fst (New l c debug rt lg) = Return (Inl err)) \<and>
   (TTL c = '''' \<longrightarrow>
      New l c debug (rt\<lparr>ParseDuration := pd\<rparr>) lg = New l c debug rt lg \<and>
      (case NewSessionWithOptions rt of
         Inr sess \<Rightarrow> (\<exists>b. fst (New l c debug rt lg) = Return (Inr b) \<and> expiresAt b = zero_Time)
       | Inl e \<Rightarrow> fst (New l c debug rt lg) = Panic ''session.Must''))"
  by (simp add: New_def Let_def session_Must_def split: sum.splits)

theorem New_TTL_witness:
  "fst (New (Logger 0) cfg_bad_ttl False rt_ok []) = Return (Inl (PlainErr ''time: invalid duration'')) \<and>
   New (Logger 0) cfg_plain False (rt_ok\<lparr>ParseDuration := \<lambda>s. Inl (PlainErr ''never called'')\<rparr>) [] =
     New (Logger 0) cfg_plain False rt_ok [] \<and>
   (\<exists>b. fst (New (Logger 0) cfg_plain False rt_ok []) = Return (Inr b) \<and> expiresAt b = zero_Time)"
proof -
  have h1: "TTL cfg_bad_ttl \<noteq> '''' \<and>
            ParseDuration rt_ok (TTL cfg_bad_ttl) = Inl (PlainErr ''time: invalid duration'')"
    by (simp add: cfg_bad_ttl_def rt_ok_def parse_sample_def)
  have h2: "TTL cfg_plain = ''''"
    by (simp add: cfg_plain_def)
  have h3: "NewSessionWithOptions rt_ok = Inr Session"
    by (simp add: rt_ok_def)
  from New_TTL [of cfg_bad_ttl rt_ok "PlainErr ''time: invalid duration''" "Logger 0" False "[]"] h1
  have a: "fst (New (Logger 0) cfg_bad_ttl False rt_ok []) =
             Return (Inl (PlainErr ''time: invalid duration''))"
    by blast
  from New_TTL [of cfg_plain rt_ok _ "Logger 0" False "[]" "\<lambda>s. Inl (PlainErr ''never called'')"] h2 h3
  have b: "New (Logger 0) cfg_plain False (rt_ok\<lparr>ParseDuration := \<lambda>s. Inl (PlainErr ''never called'')\<rparr>) [] =
     New (Logger 0) cfg_plain False rt_ok [] \<and>
   (\<exists>b. fst (New (Logger 0) cfg_plain False rt_ok []) = Return (Inr b) \<and> expiresAt b = zero_Time)"
    by simp
  from a b show ?thesis by simp
qed

lemma New_success_independent_of_credentials:
  "(\<exists>b. fst (New l (c\<lparr>Key := k, Secret := s\<rparr>) debug rt lg) = Return (Inr b)) =
   (\<exists>b. fst (New l c debug rt lg) = Return (Inr b))"
  by (cases "k \<noteq> '''' \<and> s \<noteq> ''''"; cases "Key c \<noteq> '''' \<and> Secret c \<noteq> ''''")
     (auto simp add: New_def Let_def session_Must_def split: sum.splits)

text \<open>
  C9. Whether \<open>New\<close> returns a backend does not depend on the access key and the
  secret (the lemma above); what can stop it is the TTL guard and the session, as for any
  configuration. \<open>New\<close> logs the warning exactly when the access key or the secret is
  empty, also when it fails afterwards. When the TTL string is empty or parses and the
  SDK session can be created, \<open>New\<close> returns a backend, whose client has static
  credentials (key and secret) when both are non-empty and anonymous credentials
  otherwise.
\<close>

theorem New_credentials:
  "snd (New l c debug rt lg) =
     lg @ (if Key c \<noteq> '''' \<and> Secret c \<noteq> '''' then []
           else [LogEntry l LevelWarn
                  [(''msg'', Str ''aws key and/or Secret not provided (falling back to anonymous credentials)'')]])
        @ [LogEntry l LevelDebug [(''msg'', Str ''s3 backend''), (''config'', GoSyntax c)]] \<and>
   ((TTL c = '''' \<or> (\<exists>d. ParseDuration rt (TTL c) = Inr d)) \<and>
    (\<exists>sess. NewSessionWithOptions rt = Inr sess) \<longrightarrow>
    (\<exists>b. fst (New l c debug rt lg) = Return (Inr b) \<and>
         aws_Credentials (S3_Config (client b)) =
           (if Key c \<noteq> '''' \<and> Secret c \<noteq> ''''
            then StaticCredentials (Key c) (Secret c) ''''
            else AnonymousCredentials)))"
proof (intro conjI impI)
  show "snd (New l c debug rt lg) =
     lg @ (if Key c \<noteq> '''' \<and> Secret c \<noteq> '''' then []
           else [LogEntry l LevelWarn
                  [(''msg'', Str ''aws key and/or Secret not provided (falling back to anonymous credentials)'')]])
        @ [LogEntry l LevelDebug [(''msg'', Str ''s3 backend''), (''config'', GoSyntax c)]]"
    by (rule New_log)
next
  assume h: "(TTL c = '''' \<or> (\<exists>d. ParseDuration rt (TTL c) = Inr d)) \<and>
             (\<exists>sess. NewSessionWithOptions rt = Inr sess)"
  then have "\<exists>b. fst (New l c debug rt lg) = Return (Inr b)"
    by (cases "Key c \<noteq> '''' \<and> Secret c \<noteq> ''''")
       (auto simp add: New_def Let_def session_Must_def)
  then obtain b where b: "fst (New l c debug rt lg) = Return (Inr b)" ..
  from New_Return_Inr [OF b]
  have "aws_Credentials (S3_Config (client b)) =
             (if Key c \<noteq> '''' \<and> Secret c \<noteq> ''''
              then StaticCredentials (Key c) (Secret c) ''''
              else AnonymousCredentials)"
    by (auto simp add: s3_New_def)
  with b show "\<exists>b. fst (New l c debug rt lg) = Return (Inr b) \<and>
         aws_Credentials (S3_Config (client b)) =
           (if Key c \<noteq> '''' \<and> Secret c \<noteq> ''''
            then StaticCredentials (Key c) (Secret c) ''''
            else AnonymousCredentials)"
    by blast
qed

theorem New_credentials_witness:
  "snd (New (Logger 0) cfg_plain False rt_ok []) =
     [LogEntry (Logger 0) LevelWarn
        [(''msg'', Str ''aws key and/or Secret not provided (falling back to anonymous credentials)'')],
      LogEntry (Logger 0) LevelDebug
        [(''msg'', Str ''s3 backend''), (''config'', GoSyntax cfg_plain)]] \<and>
   (\<exists>b. fst (New (Logger 0) cfg_plain False rt_ok []) = Return (Inr b) \<and>
        aws_Credentials (S3_Config (client b)) = AnonymousCredentials)"
proof -
  have h1: "TTL cfg_plain = '''' \<or> (\<exists>d. ParseDuration rt_ok (TTL cfg_plain) = Inr d)"
    by (simp add: cfg_plain_def)
  have h2: "\<exists>sess. NewSessionWithOptions rt_ok = Inr sess"
    by (simp add: rt_ok_def)
  have k: "Key cfg_plain = ''''"
    by (simp add: cfg_plain_def)
  from New_credentials [of "Logger 0" cfg_plain False rt_ok "[]"] h1 h2 show ?thesis
    by (simp add: k)
qed

text \<open>
  C10. In the client of every backend that \<open>New\<close> returns, \<^verbatim>\<open>DisableSSL\<close> is false
  (TLS is on) exactly when the endpoint string begins with \<^verbatim>\<open>https://\<close>; no other
  field of the configuration, and nothing of the runtime, has a part in it.
\<close>

theorem New_DisableSSL:
  assumes "fst (New l c debug rt lg) = Return (Inr b)"
  shows "DisableSSL (S3_Config (client b)) = (\<not> prefix ''https://'' (Endpoint c))"
  using New_Return_Inr [OF assms] by (auto simp add: s3_New_def)

theorem New_DisableSSL_witness:
  "fst (New (Logger 0) cfg_ttl False rt_ok []) = Return (Inr backend_ttl) \<and>
   Endpoint cfg_ttl = ''https://s3.example.com'' \<and>
   DisableSSL (S3_Config (client backend_ttl)) = False \<and>
   fst (New (Logger 0) cfg_plain False rt_ok []) = Return (Inr backend_plain) \<and>
   Endpoint cfg_plain = ''minio:9000'' \<and>
   DisableSSL (S3_Config (client backend_plain)) = True"
proof -
  have e1: "Endpoint cfg_ttl = ''https://s3.example.com''"
    by (simp add: cfg_ttl_def)
  have e2: "Endpoint cfg_plain = ''minio:9000''"
    by (simp add: cfg_plain_def)
  from New_DisableSSL [OF New_cfg_ttl]
  have a: "DisableSSL (S3_Config (client backend_ttl)) = False"
    by (simp add: e1)
  from New_DisableSSL [OF New_cfg_plain]
  have b: "DisableSSL (S3_Config (client backend_plain)) = True"
    by (simp add: e2)
  from a b e1 e2 New_cfg_ttl New_cfg_plain show ?thesis
    by blast
qed

section \<open>Get and the race with cancellation\<close>

lemma select_go_RecvDone: "select_go e d s c = Some RecvDone \<Longrightarrow> d \<noteq> None"
  by (auto simp add: select_go_def split: option.splits)

lemma Done_at_ctx_Err: "Done_at ctx sched \<noteq> None \<Longrightarrow> \<exists>m. ctx_Err ctx = Some (PlainErr m)"
  by (cases ctx) (simp_all add: Done_at_def)

lemma Get_goroutine_cases:
  "(Get_goroutine b svc ctx p w = Close \<and>
      (\<exists>body. GetObjectWithContext svc (client b) ctx \<lparr>get_Bucket = bucket b, get_Key = p\<rparr> = Inr body \<and>
              io_Copy svc w body = None)) \<or>
   (\<exists>err. GetObjectWithContext svc (client b) ctx \<lparr>get_Bucket = bucket b, get_Key = p\<rparr> = Inl err \<and>
          Get_goroutine b svc ctx p w = Send (Errorf ''get the object, '' err)) \<or>
   (\<exists>body err. GetObjectWithContext svc (client b) ctx \<lparr>get_Bucket = bucket b, get_Key = p\<rparr> = Inr body \<and>
          io_Copy svc w body = Some err \<and>
          Get_goroutine b svc ctx p w = Send (Errorf ''copy the object, '' err))"
  by (auto simp add: Get_goroutine_def Let_def split: sum.splits option.splits)

lemma Get_one_of_four:
  assumes "Get b svc sched ctx p w = Some r"
  shows "length (filter (\<lambda>P. P)
           [r = None \<and>
              (\<exists>body. GetObjectWithContext svc (client b) ctx \<lparr>get_Bucket = bucket b, get_Key = p\<rparr> = Inr body \<and>
                      io_Copy svc w body = None),
            \<exists>err. GetObjectWithContext svc (client b) ctx \<lparr>get_Bucket = bucket b, get_Key = p\<rparr> = Inl err \<and>
                  r = Some (Errorf ''get the object, '' err),
            \<exists>body err. GetObjectWithContext svc (client b) ctx \<lparr>get_Bucket = bucket b, get_Key = p\<rparr> = Inr body \<and>
                  io_Copy svc w body = Some err \<and> r = Some (Errorf ''copy the object, '' err),
            \<exists>err. ctx_Err ctx = Some err \<and> Done_at ctx sched \<noteq> None \<and> r = Some err]) = 1"
proof (cases "select_go (errCh_at sched) (Done_at ctx sched) (select_at sched) (pick sched)")
  case None
  with assms show ?thesis by (simp add: Get_def)
next
  case (Some c)
  show ?thesis
  proof (cases c)
    case RecvErrCh
    with Some assms have r: "r = recv (Get_goroutine b svc ctx p w)"
      by (simp add: Get_def)
    from Get_goroutine_cases [of b svc ctx p w] show ?thesis
      using r by (cases ctx) auto
  next
    case RecvDone
    with Some assms have r: "r = ctx_Err ctx"
      by (simp add: Get_def)
    from Some RecvDone have d: "Done_at ctx sched \<noteq> None"
      by (auto dest: select_go_RecvDone)
    from Done_at_ctx_Err [OF d] obtain m where m: "ctx_Err ctx = Some (PlainErr m)" ..
    show ?thesis using r d m by auto
  qed
qed

lemma Get_returns_iff:
  "(Get b svc sched ctx p w = None) = (errCh_at sched = None \<and> Done_at ctx sched = None)"
  by (auto simp add: Get_def select_go_def split: option.splits select_case.splits)

lemma Get_only_transfer:
  "errCh_at sched = Some t \<Longrightarrow> Done_at ctx sched = None \<Longrightarrow>
   Get b svc sched ctx p w = Some (recv (Get_goroutine b svc ctx p w))"
  by (simp add: Get_def select_go_def)

lemma Get_only_done:
  "errCh_at sched = None \<Longrightarrow> Done_at ctx sched = Some d \<Longrightarrow>
   Get b svc sched ctx p w = Some (ctx_Err ctx)"
  by (simp add: Get_def select_go_def)

lemma Get_transfer_first:
  "errCh_at sched = Some t \<Longrightarrow> Done_at ctx sched = Some d \<Longrightarrow> t < d \<Longrightarrow> select_at sched < d \<Longrightarrow>
   Get b svc sched ctx p w = Some (recv (Get_goroutine b svc ctx p w))"
  by (simp add: Get_def select_go_def)

lemma Get_done_first:
  "errCh_at sched = Some t \<Longrightarrow> Done_at ctx sched = Some d \<Longrightarrow> d < t \<Longrightarrow> select_at sched < t \<Longrightarrow>
   Get b svc sched ctx p w = Some (ctx_Err ctx)"
  by (simp add: Get_def select_go_def)

text \<open>
  The claim C6 as stated fails where both communications can already proceed when the
  \<^verbatim>\<open>select\<close> is evaluated. Here the context is cancelled at instant 1, the fetch
  fails for that reason and the goroutine reaches its send at instant 2, the calling
  goroutine evaluates the \<^verbatim>\<open>select\<close> at instant 3, and the runtime picks the receive
  from \<^verbatim>\<open>errCh\<close>: the cancellation resolved first, and \<open>Get\<close> returns the wrapped
  fetch error, not the cancellation error.
\<close>

theorem Get_cancellation_first_transfer_returned:
  "Done_at Canceled sched_both_ready = Some 1 \<and>
   errCh_at sched_both_ready = Some 2 \<and>
   ctx_Err Canceled = Some (PlainErr ''context canceled'') \<and>
   Get backend_plain get_canceled sched_both_ready Canceled ''artifact/1.tar'' (Writer 0) =
     Some (Some (Errorf ''get the object, ''
                  (AwsErr (awserr_Error ''RequestCanceled'' ''request context canceled'')))) \<and>
   Get backend_plain get_canceled sched_both_ready Canceled ''artifact/1.tar'' (Writer 0) \<noteq>
     Some (ctx_Err Canceled)"
  by (simp add: Get_def select_go_def Done_at_def Get_goroutine_def get_canceled_def
      sched_both_ready_def)

text \<open>
  C6, amended. \<open>Get\<close> never returns when neither the transfer's result nor the
  cancellation ever resolves, and returns otherwise. What it returns is exactly one of
  four: nil, and the transfer is complete; the wrapped error of the fetch; the wrapped
  error of the copy; the error of the context, which is done. It is the transfer's
  outcome when only the transfer resolves, or when it resolves first and the
  \<^verbatim>\<open>select\<close> is still waiting for the cancellation; it is the context's error in the
  two symmetric cases. When both have resolved by the time the \<^verbatim>\<open>select\<close> is
  evaluated, or resolve at the same instant, the runtime's pick decides, whichever
  resolved first.
\<close>

theorem Get_race:
  "((Get b svc sched ctx p w = None) = (errCh_at sched = None \<and> Done_at ctx sched = None)) \<and>
   (\<forall>r. Get b svc sched ctx p w = Some r \<longrightarrow>
      length (filter (\<lambda>P. P)
        [r = None \<and>
           (\<exists>body. GetObjectWithContext svc (client b) ctx \<lparr>get_Bucket = bucket b, get_Key = p\<rparr> = Inr body \<and>
                   io_Copy svc w body = None),
         \<exists>err. GetObjectWithContext svc (client b) ctx \<lparr>get_Bucket = bucket b, get_Key = p\<rparr> = Inl err \<and>
               r = Some (Errorf ''get the object, '' err),
         \<exists>body err. GetObjectWithContext svc (client b) ctx \<lparr>get_Bucket = bucket b, get_Key = p\<rparr> = Inr body \<and>
               io_Copy svc w body = Some err \<and> r = Some (Errorf ''copy the object, '' err),
         \<exists>err. ctx_Err ctx = Some err \<and> Done_at ctx sched \<noteq> None \<and> r = Some err]) = 1) \<and>
   (\<forall>t. errCh_at sched = Some t \<and>
        (Done_at ctx sched = None \<or>
         (\<exists>d. Done_at ctx sched = Some d \<and> t < d \<and> select_at sched < d)) \<longrightarrow>
      Get b svc sched ctx p w = Some (recv (Get_goroutine b svc ctx p w))) \<and>
   (\<forall>d. Done_at ctx sched = Some d \<and>
        (errCh_at sched = None \<or>
         (\<exists>t. errCh_at sched = Some t \<and> d < t \<and> select_at sched < t)) \<longrightarrow>
      Get b svc sched ctx p w = Some (ctx_Err ctx)) \<and>
   (\<forall>t d. errCh_at sched = Some t \<and> Done_at ctx sched = Some d \<and>
        (t \<le> select_at sched \<and> d \<le> select_at sched \<or> t = d) \<longrightarrow>
      Get b svc sched ctx p w =
        (case pick sched of
           RecvErrCh \<Rightarrow> Some (recv (Get_goroutine b svc ctx p w))
         | RecvDone \<Rightarrow> Some (ctx_Err ctx)))"
proof (intro conjI allI impI)
  show "(Get b svc sched ctx p w = None) = (errCh_at sched = None \<and> Done_at ctx sched = None)"
    by (rule Get_returns_iff)
next
  fix r assume "Get b svc sched ctx p w = Some r"
  then show "length (filter (\<lambda>P. P)
        [r = None \<and>
           (\<exists>body. GetObjectWithContext svc (client b) ctx \<lparr>get_Bucket = bucket b, get_Key = p\<rparr> = Inr body \<and>
                   io_Copy svc w body = None),
         \<exists>err. GetObjectWithContext svc (client b) ctx \<lparr>get_Bucket = bucket b, get_Key = p\<rparr> = Inl err \<and>
               r = Some (Errorf ''get the object, '' err),
         \<exists>body err. GetObjectWithContext svc (client b) ctx \<lparr>get_Bucket = bucket b, get_Key = p\<rparr> = Inr body \<and>
               io_Copy svc w body = Some err \<and> r = Some (Errorf ''copy the object, '' err),
         \<exists>err. ctx_Err ctx = Some err \<and> Done_at ctx sched \<noteq> None \<and> r = Some err]) = 1"
    by (rule Get_one_of_four)
next
  fix t
  assume "errCh_at sched = Some t \<and>
        (Done_at ctx sched = None \<or>
         (\<exists>d. Done_at ctx sched = Some d \<and> t < d \<and> select_at sched < d))"
  then show "Get b svc sched ctx p w = Some (recv (Get_goroutine b svc ctx p w))"
    by (auto simp add: Get_only_transfer Get_transfer_first)
next
  fix d
  assume "Done_at ctx sched = Some d \<and>
        (errCh_at sched = None \<or>
         (\<exists>t. errCh_at sched = Some t \<and> d < t \<and> select_at sched < t))"
  then show "Get b svc sched ctx p w = Some (ctx_Err ctx)"
    by (auto simp add: Get_only_done Get_done_first)
next
  fix t d
  assume "errCh_at sched = Some t \<and> Done_at ctx sched = Some d \<and>
        (t \<le> select_at sched \<and> d \<le> select_at sched \<or> t = d)"
  then show "Get b svc sched ctx p w =
        (case pick sched of
           RecvErrCh \<Rightarrow> Some (recv (Get_goroutine b svc ctx p w))
         | RecvDone \<Rightarrow> Some (ctx_Err ctx))"
    by (auto simp add: Get_def select_go_def split: select_case.splits)
qed

theorem Get_race_witness:
  "Get backend_plain get_ok sched_transfer_only Background ''artifact/1.tar'' (Writer 0) = Some None \<and>
   Get backend_plain get_ok sched_done_first Canceled ''artifact/1.tar'' (Writer 0) =
     Some (Some (PlainErr ''context canceled'')) \<and>
   length (filter (\<lambda>P. P)
     [Some (PlainErr ''context canceled'') = None \<and>
        (\<exists>body. GetObjectWithContext get_ok (client backend_plain) Canceled
                  \<lparr>get_Bucket = bucket backend_plain, get_Key = ''artifact/1.tar''\<rparr> = Inr body \<and>
                io_Copy get_ok (Writer 0) body = None),
      \<exists>err. GetObjectWithContext get_ok (client backend_plain) Canceled
                  \<lparr>get_Bucket = bucket backend_plain, get_Key = ''artifact/1.tar''\<rparr> = Inl err \<and>
            Some (PlainErr ''context canceled'') = Some (Errorf ''get the object, '' err),
      \<exists>body err. GetObjectWithContext get_ok (client backend_plain) Canceled
                  \<lparr>get_Bucket = bucket backend_plain, get_Key = ''artifact/1.tar''\<rparr> = Inr body \<and>
            io_Copy get_ok (Writer 0) body = Some err \<and>
            Some (PlainErr ''context canceled'') = Some (Errorf ''copy the object, '' err),
      \<exists>err. ctx_Err Canceled = Some err \<and> Done_at Canceled sched_done_first \<noteq> None \<and>
            Some (PlainErr ''context canceled'') = Some err]) = 1"
proof -
  note th1 = Get_race [of backend_plain get_ok sched_transfer_only Background "''artifact/1.tar''" "Writer 0"]
  note th2 = Get_race [of backend_plain get_ok sched_done_first Canceled "''artifact/1.tar''" "Writer 0"]
  have h1: "errCh_at sched_transfer_only = Some 5 \<and>
        (Done_at Background sched_transfer_only = None \<or>
         (\<exists>d. Done_at Background sched_transfer_only = Some d \<and> 5 < d \<and>
              select_at sched_transfer_only < d))"
    by (simp add: sched_transfer_only_def Done_at_def)
  have g: "recv (Get_goroutine backend_plain get_ok Background ''artifact/1.tar'' (Writer 0)) = None"
    by (simp add: Get_goroutine_def get_ok_def)
  from th1 h1 g
  have a: "Get backend_plain get_ok sched_transfer_only Background ''artifact/1.tar'' (Writer 0) = Some None"
    by metis
  have h2: "Done_at Canceled sched_done_first = Some 2 \<and>
        (errCh_at sched_done_first = None \<or>
         (\<exists>t. errCh_at sched_done_first = Some t \<and> 2 < t \<and> select_at sched_done_first < t))"
    by (simp add: sched_done_first_def Done_at_def)
  from th2 h2
  have b: "Get backend_plain get_ok sched_done_first Canceled ''artifact/1.tar'' (Writer 0) =
             Some (ctx_Err Canceled)"
    by blast
  then have b': "Get backend_plain get_ok sched_done_first Canceled ''artifact/1.tar'' (Writer 0) =
             Some (Some (PlainErr ''context canceled''))"
    by simp
  from th2 b' show ?thesis
    using a by blast
qed

end
